theory Spec2Isabelle
  imports Main "HOL-Library.Word" "HOL-Library.Sublist"
begin

unbundle bit_operations_syntax

section \<open>Python values and the operating-system interface\<close>

text \<open>
  The module \<^verbatim>\<open>gen_filecmp.py\<close> is modelled function by function. A leading
  underscore of a source name is written \<open>u_\<close> (\<^verbatim>\<open>_metadata\<close> is \<open>u_metadata\<close>,
  \<^verbatim>\<open>_cmp\<close> is \<open>u_cmp\<close>). An exception is a value: a function that can raise
  returns \<open>error + 'a\<close>, with \<open>Inl\<close> for the exception.

  Modelled are \<^verbatim>\<open>clear_cache\<close>, \<^verbatim>\<open>cmp\<close>, \<^verbatim>\<open>_metadata\<close>, \<^verbatim>\<open>_do_cmp\<close>, \<^verbatim>\<open>cmpfiles\<close>,
  \<^verbatim>\<open>_cmp\<close>, \<^verbatim>\<open>left_only\<close>, \<^verbatim>\<open>right_only\<close>, \<^verbatim>\<open>_filter_only\<close>, \<^verbatim>\<open>common_names\<close>,
  \<^verbatim>\<open>common_dirs\<close>, \<^verbatim>\<open>common_files\<close> and \<^verbatim>\<open>common_funny\<close>, each by its body as it is
  written. Not modelled are \<^verbatim>\<open>dircmp\<close> (its body is \<^verbatim>\<open>pass\<close>), \<^verbatim>\<open>demo\<close>, and the four
  generators whose \<^verbatim>\<open>for\<close> statements are not well-formed Python: \<^verbatim>\<open>_filter_list\<close>
  (line 126, a parenthesis is not closed) and \<^verbatim>\<open>same_files\<close>, \<^verbatim>\<open>diff_files\<close> and
  \<^verbatim>\<open>funny_files\<close> (lines 165, 169 and 173, without \<^verbatim>\<open>in\<close> and colon).
\<close>

datatype error = OSError | NameError | TypeError

type_synonym byte = "8 word"

text \<open>
  \<^verbatim>\<open>os.stat_result\<close>. The time stamps are floats that the module only compares for
  equality, so their type is left open.
\<close>

record 't stat_result =
  st_mode :: int
  st_ino :: int
  st_dev :: int
  st_nlink :: int
  st_uid :: int
  st_gid :: int
  st_size :: int
  st_atime :: 't
  st_mtime :: 't
  st_ctime :: 't

text \<open>
  What the module imports from \<^verbatim>\<open>os\<close> and \<^verbatim>\<open>os.path\<close>, and the builtin
  \<^verbatim>\<open>open\<close>: \<open>stat\<close> gives \<open>None\<close> where \<^verbatim>\<open>os.stat\<close> raises OSError, \<open>contents\<close>
  gives \<open>None\<close> where \<^verbatim>\<open>open(name, 'rb')\<close> raises OSError and the bytes of the file
  otherwise.
\<close>

record 't os =
  stat :: "string \<Rightarrow> 't stat_result option"
  contents :: "string \<Rightarrow> byte list option"
  normcase :: "string \<Rightarrow> string"
  join :: "string \<Rightarrow> string \<Rightarrow> string"

text \<open>
  The constants and predicates of the \<^verbatim>\<open>stat\<close> module; the octal masks
  \<^verbatim>\<open>0o170000\<close>, \<^verbatim>\<open>0o100000\<close> and \<^verbatim>\<open>0o040000\<close> are written in decimal.
\<close>

definition S_IFMT :: "int \<Rightarrow> int" where
  "S_IFMT mode = mode AND 61440"

definition S_IFREG :: int where
  "S_IFREG = 32768"

definition S_IFDIR :: int where
  "S_IFDIR = 16384"

definition S_ISDIR :: "int \<Rightarrow> bool" where
  "S_ISDIR mode = (S_IFMT mode = S_IFDIR)"

definition S_ISREG :: "int \<Rightarrow> bool" where
  "S_ISREG mode = (S_IFMT mode = S_IFREG)"

section \<open>The stat signature\<close>

type_synonym 't signature = "int \<times> int \<times> 't"

definition u_metadata :: "'t stat_result \<Rightarrow> 't signature" where
  "u_metadata metadata = (S_IFMT (st_mode metadata), st_size metadata, st_mtime metadata)"

section \<open>The content comparator\<close>

definition BUFSIZE :: nat where
  "BUFSIZE = 8 * 1024"

text \<open>
  The loop of \<^verbatim>\<open>_do_cmp\<close> over what is left to read of the two files:
  \<^verbatim>\<open>fp.read(BUFSIZE)\<close> on a regular file returns the next \<open>BUFSIZE\<close> bytes, or all
  that is left when less is left, and \<^verbatim>\<open>b''\<close> at the end of the file.
\<close>

function do_cmp_loop :: "byte list \<Rightarrow> byte list \<Rightarrow> bool" where
  "do_cmp_loop fp1 fp2 =
     (if take BUFSIZE fp1 \<noteq> take BUFSIZE fp2 then False
      else if take BUFSIZE fp1 = [] then True
      else do_cmp_loop (drop BUFSIZE fp1) (drop BUFSIZE fp2))"
  by pat_completeness auto
termination
proof (relation "measure (\<lambda>(fp1, fp2). length fp1)")
  show "wf (measure (\<lambda>(fp1, fp2). length fp1))"
    by simp
next
  fix fp1 fp2 :: "byte list"
  assume "take BUFSIZE fp1 \<noteq> []"
  then have "fp1 \<noteq> []"
    by auto
  then have "length (drop BUFSIZE fp1) < length fp1"
    by (simp add: BUFSIZE_def)
  then show "((drop BUFSIZE fp1, drop BUFSIZE fp2), (fp1, fp2)) \<in> measure (\<lambda>(fp1, fp2). length fp1)"
    by simp
qed

declare do_cmp_loop.simps [simp del]

definition u_do_cmp :: "'t os \<Rightarrow> string \<Rightarrow> string \<Rightarrow> error + bool" where
  "u_do_cmp os filename_1 filename_2 =
     (case contents os filename_1 of
        None \<Rightarrow> Inl OSError
      | Some fp1 \<Rightarrow>
         (case contents os filename_2 of
            None \<Rightarrow> Inl OSError
          | Some fp2 \<Rightarrow> Inr (do_cmp_loop fp1 fp2)))"

section \<open>The comparison cache and \<open>cmp\<close>\<close>

text \<open>
  The global dict \<^verbatim>\<open>_cache\<close> is threaded through as an association list in
  insertion order with one entry for each key; \<^verbatim>\<open>len(_cache)\<close> is its length,
  \<^verbatim>\<open>_cache.get(k)\<close> is \<open>map_of cache k\<close>, and \<^verbatim>\<open>_cache[k] = v\<close> is
  \<open>dict_setitem\<close>, which overwrites the entry of \<open>k\<close> or appends a new one.
\<close>

type_synonym cache = "((string \<times> string) \<times> bool) list"

fun dict_setitem :: "'k \<Rightarrow> 'v \<Rightarrow> ('k \<times> 'v) list \<Rightarrow> ('k \<times> 'v) list" where
  "dict_setitem k v [] = [(k, v)]"
| "dict_setitem k v (p # ps) = (if fst p = k then (k, v) # ps else p # dict_setitem k v ps)"

definition clear_cache :: "cache \<Rightarrow> cache" where
  "clear_cache cache = []"

text \<open>
  Lines 62 to 68 of \<^verbatim>\<open>cmp\<close>: the lookup of the pair, and on a miss the clearing of
  a cache of more than 100 entries, the content comparison and the store. The store
  happens after \<^verbatim>\<open>_do_cmp\<close> has returned, the clearing before it is called.
\<close>

definition cmp_cached :: "'t os \<Rightarrow> cache \<Rightarrow> string \<Rightarrow> string \<Rightarrow> (error + bool) \<times> cache" where
  "cmp_cached os cache filename_0 filename_1 =
     (let compare_tuple = (filename_0, filename_1) in
      case map_of cache compare_tuple of
        Some outcome \<Rightarrow> (Inr outcome, cache)
      | None \<Rightarrow>
         (let cache1 = (if length cache > 100 then clear_cache cache else cache) in
          case u_do_cmp os (fst compare_tuple) (snd compare_tuple) of
            Inl e \<Rightarrow> (Inl e, cache1)
          | Inr outcome \<Rightarrow> (Inr outcome, dict_setitem compare_tuple outcome cache1)))"

text \<open>
  \<^verbatim>\<open>cmp\<close>. A name is looked up in \<open>scope\<close>, which holds the signatures bound when
  line 56 is reached: the function binds \<^verbatim>\<open>metadata_0\<close> and \<^verbatim>\<open>metadata_1\<close>, and the
  module binds no global of the name \<^verbatim>\<open>metadata_2\<close>. The \<^verbatim>\<open>or\<close> of line 56 evaluates
  its right operand only when the left one is false.
\<close>

definition cmp :: "'t os \<Rightarrow> cache \<Rightarrow> string \<Rightarrow> string \<Rightarrow> bool \<Rightarrow> (error + bool) \<times> cache" where
  "cmp os cache filename_0 filename_1 shallow =
     (case stat os filename_0 of
        None \<Rightarrow> (Inl OSError, cache)
      | Some st_0 \<Rightarrow>
         (case stat os filename_1 of
            None \<Rightarrow> (Inl OSError, cache)
          | Some st_1 \<Rightarrow>
             (let metadata_0 = u_metadata st_0;
                  metadata_1 = u_metadata st_1;
                  scope = [''metadata_0'' \<mapsto> metadata_0, ''metadata_1'' \<mapsto> metadata_1]
              in if fst metadata_0 \<noteq> S_IFREG then (Inr False, cache)
                 else (case scope ''metadata_2'' of
                         None \<Rightarrow> (Inl NameError, cache)
                       | Some metadata_2 \<Rightarrow>
                          if fst metadata_2 \<noteq> S_IFREG then (Inr False, cache)
                          else if shallow \<and> metadata_0 = metadata_1 then (Inr True, cache)
                          else if fst (snd metadata_0) \<noteq> fst (snd metadata_1)
                               then (Inr False, cache)
                          else cmp_cached os cache filename_0 filename_1))))"

section \<open>The batch comparator\<close>

text \<open>
  \<^verbatim>\<open>_cmp\<close> returns \<^verbatim>\<open>not abs(cmp(a, b, shallow))\<close>, a bool that the caller uses as
  an index (\<^verbatim>\<open>False\<close> is 0, \<^verbatim>\<open>True\<close> is 1), or 2 when \<^verbatim>\<open>cmp\<close> raises OSError.
  Any other exception passes through the \<^verbatim>\<open>except OSError\<close> clause.
\<close>

definition py_abs :: "bool \<Rightarrow> int" where
  "py_abs b = (if b then 1 else 0)"

definition py_not :: "int \<Rightarrow> bool" where
  "py_not n = (n = 0)"

definition u_cmp :: "'t os \<Rightarrow> cache \<Rightarrow> string \<Rightarrow> string \<Rightarrow> bool \<Rightarrow> (error + nat) \<times> cache" where
  "u_cmp os cache a b shallow =
     (case cmp os cache a b shallow of
        (Inr outcome, cache') \<Rightarrow> (Inr (if py_not (py_abs outcome) then 1 else 0), cache')
      | (Inl OSError, cache') \<Rightarrow> (Inr 2, cache')
      | (Inl e, cache') \<Rightarrow> (Inl e, cache'))"

text \<open>
  \<^verbatim>\<open>result\<close> of \<^verbatim>\<open>cmpfiles\<close> is the tuple \<^verbatim>\<open>(None, None, None)\<close>, and a tuple has
  no item assignment: \<^verbatim>\<open>result[i] = x\<close> raises TypeError for every \<open>i\<close> and \<open>x\<close>.
\<close>

type_synonym result = "string option \<times> string option \<times> string option"

definition tuple_setitem :: "result \<Rightarrow> nat \<Rightarrow> string \<Rightarrow> error + result" where
  "tuple_setitem t i x = Inl TypeError"

text \<open>
  A generator is modelled by what it does when it is run to its end: the list of the
  values it yields, and the exception that ends it (\<open>None\<close> when it returns). In
  \<^verbatim>\<open>result[_cmp(...)] = x\<close> the call of \<^verbatim>\<open>_cmp\<close> is evaluated before the store.
\<close>

fun cmpfiles :: "'t os \<Rightarrow> cache \<Rightarrow> string \<Rightarrow> string \<Rightarrow> string list \<Rightarrow> bool
    \<Rightarrow> (result list \<times> error option) \<times> cache" where
  "cmpfiles os cache a b [] shallow = (([], None), cache)"
| "cmpfiles os cache a b (x # common) shallow =
     (let result = (None, None, None) in
      case u_cmp os cache (join os a x) (join os b x) shallow of
        (Inl e, cache') \<Rightarrow> (([], Some e), cache')
      | (Inr i, cache') \<Rightarrow>
         (case tuple_setitem result i x of
            Inl e \<Rightarrow> (([], Some e), cache')
          | Inr result' \<Rightarrow>
             (case cmpfiles os cache' a b common shallow of
                ((rest, e), cache'') \<Rightarrow> ((result' # rest, e), cache''))))"

section \<open>The directory partitioner\<close>

text \<open>
  The values that \<^verbatim>\<open>common_names\<close> compares with \<^verbatim>\<open>in\<close>: strings and tuples. Equality
  is by value, and a tuple is never equal to a string.
\<close>

datatype pyval = PStr string | PTuple "pyval list"

definition py_in :: "pyval \<Rightarrow> pyval \<Rightarrow> bool" where
  "py_in b a = (case a of PTuple items \<Rightarrow> b \<in> set items | PStr s \<Rightarrow> False)"

text \<open>
  \<^verbatim>\<open>common_names\<close> on two sequences of names: \<open>a\<close> and \<open>b\<close> are the pairs
  \<^verbatim>\<open>(normcase(name), name)\<close> at the same position of \<open>l\<close> and \<open>r\<close>, and \<^verbatim>\<open>a[b in a]\<close>
  is \<^verbatim>\<open>a[1]\<close> when the test holds and \<^verbatim>\<open>a[0]\<close> when it does not.
\<close>

definition common_names :: "'t os \<Rightarrow> string list \<Rightarrow> string list \<Rightarrow> string list" where
  "common_names os l r =
     map (\<lambda>(a, b). if py_in (PTuple [PStr (fst b), PStr (snd b)])
                              (PTuple [PStr (fst a), PStr (snd a)])
                     then snd a else fst a)
         (zip (zip (map (normcase os) l) l) (zip (map (normcase os) r) r))"

text \<open>
  The parameters \<^verbatim>\<open>left\<close> and \<^verbatim>\<open>right\<close> of \<^verbatim>\<open>common_dirs\<close>, \<^verbatim>\<open>common_files\<close> and
  \<^verbatim>\<open>common_funny\<close> are both iterated (by \<^verbatim>\<open>common_names\<close>) and joined with a name
  (by \<^verbatim>\<open>os.path.join\<close>). Iterating a list gives its elements, iterating a string its
  characters as strings of length one; joining a string gives a path, joining a list
  raises TypeError.
\<close>

datatype pyarg = Path string | Listing "string list"

definition py_iter :: "pyarg \<Rightarrow> string list" where
  "py_iter x = (case x of Path p \<Rightarrow> map (\<lambda>c. [c]) p | Listing names \<Rightarrow> names)"

definition py_join :: "'t os \<Rightarrow> pyarg \<Rightarrow> string \<Rightarrow> error + string" where
  "py_join os x name = (case x of Path p \<Rightarrow> Inr (join os p name) | Listing names \<Rightarrow> Inl TypeError)"

definition py_stat :: "'t os \<Rightarrow> pyarg \<Rightarrow> string \<Rightarrow> error + 't stat_result" where
  "py_stat os x name =
     (case py_join os x name of
        Inl e \<Rightarrow> Inl e
      | Inr p \<Rightarrow> (case stat os p of None \<Rightarrow> Inl OSError | Some st \<Rightarrow> Inr st))"

fun common_dirs_loop :: "'t os \<Rightarrow> pyarg \<Rightarrow> string list \<Rightarrow> string list \<times> error option" where
  "common_dirs_loop os left [] = ([], None)"
| "common_dirs_loop os left (name # names) =
     (case py_stat os left name of
        Inl e \<Rightarrow> ([], Some e)
      | Inr st \<Rightarrow>
         (case common_dirs_loop os left names of
            (rest, e) \<Rightarrow>
              if S_ISDIR (S_IFMT (st_mode st)) then (name # rest, e) else (rest, e)))"

definition common_dirs :: "'t os \<Rightarrow> pyarg \<Rightarrow> pyarg \<Rightarrow> string list \<times> error option" where
  "common_dirs os left right =
     common_dirs_loop os left (common_names os (py_iter left) (py_iter right))"

fun common_files_loop :: "'t os \<Rightarrow> pyarg \<Rightarrow> string list \<Rightarrow> string list \<times> error option" where
  "common_files_loop os left [] = ([], None)"
| "common_files_loop os left (name # names) =
     (case py_stat os left name of
        Inl e \<Rightarrow> ([], Some e)
      | Inr st \<Rightarrow>
         (case common_files_loop os left names of
            (rest, e) \<Rightarrow>
              if S_ISREG (S_IFMT (st_mode st)) then (name # rest, e) else (rest, e)))"

definition common_files :: "'t os \<Rightarrow> pyarg \<Rightarrow> pyarg \<Rightarrow> string list \<times> error option" where
  "common_files os left right =
     common_files_loop os left (common_names os (py_iter left) (py_iter right))"

fun common_funny_loop :: "'t os \<Rightarrow> pyarg \<Rightarrow> pyarg \<Rightarrow> string list \<Rightarrow> string list \<times> error option" where
  "common_funny_loop os left right [] = ([], None)"
| "common_funny_loop os left right (name # names) =
     (case py_stat os left name of
        Inl e \<Rightarrow> ([], Some e)
      | Inr st_a \<Rightarrow>
         (case py_stat os right name of
            Inl e \<Rightarrow> ([], Some e)
          | Inr st_b \<Rightarrow>
             (let a_type = S_IFMT (st_mode st_a); b_type = S_IFMT (st_mode st_b) in
              case common_funny_loop os left right names of
                (rest, e) \<Rightarrow>
                  if a_type \<noteq> b_type then (name # rest, e)
                  else if \<not> S_ISREG a_type then (name # rest, e)
                  else if \<not> S_ISDIR a_type then (name # rest, e)
                  else (rest, e))))"

definition common_funny :: "'t os \<Rightarrow> pyarg \<Rightarrow> pyarg \<Rightarrow> string list \<times> error option" where
  "common_funny os left right =
     common_funny_loop os left right (common_names os (py_iter left) (py_iter right))"

text \<open>
  \<^verbatim>\<open>_filter_only(a, b)\<close> passes each \<open>x\<close> of \<open>a\<close> that is not in \<open>b\<close> to
  \<^verbatim>\<open>a.__getitem__\<close>. The index is then a string, and both a list and a string raise
  TypeError for an index that is not an integer.
\<close>

definition getitem :: "pyarg \<Rightarrow> string \<Rightarrow> error + string" where
  "getitem a x = Inl TypeError"

text \<open>\<^verbatim>\<open>b.__contains__(x)\<close>: membership in a list, the substring test in a string.\<close>

definition py_contains :: "pyarg \<Rightarrow> string \<Rightarrow> bool" where
  "py_contains b x = (case b of Path p \<Rightarrow> sublist x p | Listing names \<Rightarrow> x \<in> set names)"

fun filter_only_loop :: "pyarg \<Rightarrow> pyarg \<Rightarrow> string list \<Rightarrow> string list \<times> error option" where
  "filter_only_loop a b [] = ([], None)"
| "filter_only_loop a b (x # xs) =
     (if py_contains b x then filter_only_loop a b xs
      else (case getitem a x of
              Inl e \<Rightarrow> ([], Some e)
            | Inr y \<Rightarrow> (case filter_only_loop a b xs of (rest, e) \<Rightarrow> (y # rest, e))))"

definition u_filter_only :: "pyarg \<Rightarrow> pyarg \<Rightarrow> string list \<times> error option" where
  "u_filter_only a b = filter_only_loop a b (py_iter a)"

definition left_only :: "pyarg \<Rightarrow> pyarg \<Rightarrow> string list \<times> error option" where
  "left_only left right = u_filter_only left right"

definition right_only :: "pyarg \<Rightarrow> pyarg \<Rightarrow> string list \<times> error option" where
  "right_only right left = u_filter_only right left"

section \<open>Sequences of calls and example file systems\<close>

text \<open>
  A sequence of calls of \<^verbatim>\<open>cmp\<close>, each on the file system of its moment, by a
  caller that goes on after an exception: the outcome of every call, in order, and the
  cache that the last call leaves.
\<close>

fun cmp_calls :: "('t os \<times> string \<times> string \<times> bool) list \<Rightarrow> cache
    \<Rightarrow> (error + bool) list \<times> cache" where
  "cmp_calls [] cache = ([], cache)"
| "cmp_calls ((os, filename_0, filename_1, shallow) # calls) cache =
     (case cmp os cache filename_0 filename_1 shallow of
        (outcome, cache') \<Rightarrow>
          (case cmp_calls calls cache' of
             (outcomes, cache'') \<Rightarrow> (outcome # outcomes, cache'')))"

text \<open>\<^verbatim>\<open>posixpath.join\<close> of two components, and \<^verbatim>\<open>posixpath.normcase\<close> (the identity).\<close>

definition posix_join :: "string \<Rightarrow> string \<Rightarrow> string" where
  "posix_join a p =
     (if take 1 p = ''/'' then p
      else if a = [] \<or> last a = CHR ''/'' then a @ p
      else a @ ''/'' @ p)"

definition mk_stat :: "int \<Rightarrow> int \<Rightarrow> int \<Rightarrow> nat \<Rightarrow> nat stat_result" where
  "mk_stat mode uid sz mtime =
     \<lparr>st_mode = mode, st_ino = 0, st_dev = 0, st_nlink = 1, st_uid = uid, st_gid = uid,
      st_size = sz, st_atime = 0, st_mtime = mtime, st_ctime = 0\<rparr>"

text \<open>
  A POSIX file system: \<^verbatim>\<open>p\<close> and \<^verbatim>\<open>q\<close> are regular files of the same size and
  modification time with the contents \<^verbatim>\<open>hi\<close> and \<^verbatim>\<open>by\<close>, modes \<^verbatim>\<open>0o100644\<close> and
  \<^verbatim>\<open>0o100755\<close> and different owners; \<^verbatim>\<open>d\<close>, \<^verbatim>\<open>a\<close> and \<^verbatim>\<open>b\<close> are directories
  (mode \<^verbatim>\<open>0o040755\<close>); \<^verbatim>\<open>a\<close> and \<^verbatim>\<open>b\<close> each hold a regular file \<^verbatim>\<open>a\<close>, and
  \<^verbatim>\<open>a\<close> holds a regular file \<^verbatim>\<open>y\<close> as \<^verbatim>\<open>b\<close> does. No other path exists.
\<close>

definition demo_os :: "nat os" where
  "demo_os =
     \<lparr>stat = [''p'' \<mapsto> mk_stat 33188 1000 2 10, ''q'' \<mapsto> mk_stat 33261 0 2 10,
              ''d'' \<mapsto> mk_stat 16877 0 4096 5, ''a'' \<mapsto> mk_stat 16877 0 4096 5,
              ''b'' \<mapsto> mk_stat 16877 0 4096 5,
              ''a/a'' \<mapsto> mk_stat 33188 0 2 7, ''b/a'' \<mapsto> mk_stat 33188 0 2 7,
              ''a/y'' \<mapsto> mk_stat 33188 0 2 8, ''b/y'' \<mapsto> mk_stat 33188 0 2 9],
      contents = [''p'' \<mapsto> [104, 105], ''q'' \<mapsto> [98, 121],
                  ''a/a'' \<mapsto> [104, 105], ''b/a'' \<mapsto> [104, 105],
                  ''a/y'' \<mapsto> [104, 105], ''b/y'' \<mapsto> [98, 121]],
      normcase = (\<lambda>s. s),
      join = posix_join\<rparr>"





text \<open>
  \<^verbatim>\<open>ntpath.normcase\<close> on ASCII names: slashes become backslashes and capital letters
  small ones.
\<close>

definition ascii_lower :: "char \<Rightarrow> char" where
  "ascii_lower c =
     (if (65::nat) \<le> of_char c \<and> of_char c \<le> (90::nat) then char_of (of_char c + (32::nat))
      else c)"

definition nt_normcase :: "string \<Rightarrow> string" where
  "nt_normcase s = map ascii_lower (map (\<lambda>c. if c = CHR ''/'' then CHR 0x5C else c) s)"

section \<open>The stat signature: what it depends on\<close>

lemma S_IFMT_33188: "S_IFMT 33188 = 32768"
  by (simp add: S_IFMT_def)

lemma S_IFMT_33261: "S_IFMT 33261 = 32768"
  by (simp add: S_IFMT_def)

lemma S_IFMT_16877: "S_IFMT 16877 = 16384"
  by (simp add: S_IFMT_def)

lemmas S_IFMT_demo = S_IFMT_33188 S_IFMT_33261 S_IFMT_16877

text \<open>
  Claim C10. The signature that \<^verbatim>\<open>_metadata\<close> derives from a stat result depends
  only on the file-type bits of \<open>st_mode\<close>, on \<open>st_size\<close> and on \<open>st_mtime\<close>: two
  stat results that agree on these three have the same signature, whatever their
  permission bits, owners and other fields are.
\<close>

theorem u_metadata_depends_only:
  "S_IFMT (st_mode s1) = S_IFMT (st_mode s2) \<Longrightarrow> st_size s1 = st_size s2 \<Longrightarrow>
   st_mtime s1 = st_mtime s2 \<Longrightarrow> u_metadata s1 = u_metadata s2"
  by (simp add: u_metadata_def)

theorem u_metadata_depends_only_witness:
  "st_mode (mk_stat 33188 1000 2 10) \<noteq> st_mode (mk_stat 33261 0 2 10) \<and>
   st_uid (mk_stat 33188 1000 2 10) \<noteq> st_uid (mk_stat 33261 0 2 10) \<and>
   S_IFMT (st_mode (mk_stat 33188 1000 2 10)) = S_IFMT (st_mode (mk_stat 33261 0 2 10)) \<and>
   u_metadata (mk_stat 33188 1000 2 10) = u_metadata (mk_stat 33261 0 2 10)"
proof -
  have m: "S_IFMT (st_mode (mk_stat 33188 1000 2 10)) = S_IFMT (st_mode (mk_stat 33261 0 2 10))"
    by (simp add: mk_stat_def S_IFMT_demo)
  have s: "st_size (mk_stat 33188 1000 2 10) = st_size (mk_stat 33261 0 2 10)"
    by (simp add: mk_stat_def)
  have t: "st_mtime (mk_stat 33188 1000 2 10) = st_mtime (mk_stat 33261 0 2 10)"
    by (simp add: mk_stat_def)
  show ?thesis
    using m u_metadata_depends_only [OF m s t] by (simp add: mk_stat_def)
qed

section \<open>The content comparator against the comparison of the whole buffers\<close>

lemma do_cmp_loop_eq: "do_cmp_loop fp1 fp2 = (fp1 = fp2)"
proof (induction fp1 fp2 rule: do_cmp_loop.induct)
  case (1 fp1 fp2)
  show ?case
  proof (cases "take BUFSIZE fp1 = take BUFSIZE fp2")
    case False
    then have "fp1 \<noteq> fp2"
      by auto
    with False show ?thesis
      by (subst do_cmp_loop.simps) simp
  next
    case same: True
    show ?thesis
    proof (cases "take BUFSIZE fp1 = []")
      case True
      with same have "take BUFSIZE fp2 = []"
        by simp
      with True have "fp1 = [] \<and> fp2 = []"
        by (simp add: BUFSIZE_def)
      with same show ?thesis
        by (subst do_cmp_loop.simps) simp
    next
      case False
      with same 1 have IH:
        "do_cmp_loop (drop BUFSIZE fp1) (drop BUFSIZE fp2) = (drop BUFSIZE fp1 = drop BUFSIZE fp2)"
        by simp
      have "(fp1 = fp2) = (drop BUFSIZE fp1 = drop BUFSIZE fp2)"
        using same by (metis append_take_drop_id)
      with same False IH show ?thesis
        by (subst do_cmp_loop.simps) simp
    qed
  qed
qed

text \<open>
  Claim C2. On two files that can be opened, \<^verbatim>\<open>_do_cmp\<close> returns, and what it
  returns is whether the whole contents of the two files are the same bytes, for files
  of any size.
\<close>

theorem u_do_cmp_full_buffer:
  "contents os filename_1 = Some fp1 \<Longrightarrow> contents os filename_2 = Some fp2 \<Longrightarrow>
   u_do_cmp os filename_1 filename_2 = Inr (fp1 = fp2)"
  by (simp add: u_do_cmp_def do_cmp_loop_eq)

theorem u_do_cmp_full_buffer_witness:
  "u_do_cmp demo_os ''p'' ''p'' = Inr True \<and> u_do_cmp demo_os ''p'' ''q'' = Inr False \<and>
   u_do_cmp (demo_os\<lparr>contents := [''x'' \<mapsto> replicate 8192 1 @ [1],
                                      ''y'' \<mapsto> replicate 8192 1 @ [2],
                                      ''z'' \<mapsto> replicate 8192 1]\<rparr>) ''x'' ''y'' = Inr False \<and>
   u_do_cmp (demo_os\<lparr>contents := [''x'' \<mapsto> replicate 8192 1 @ [1],
                                      ''y'' \<mapsto> replicate 8192 1 @ [2],
                                      ''z'' \<mapsto> replicate 8192 1]\<rparr>) ''x'' ''z'' = Inr False"
proof -
  let ?os = "demo_os\<lparr>contents := [''x'' \<mapsto> replicate 8192 1 @ [1],
                                   ''y'' \<mapsto> replicate 8192 1 @ [2],
                                   ''z'' \<mapsto> replicate 8192 1]\<rparr>"
  have p: "contents demo_os ''p'' = Some [104, 105]"
    by (simp add: demo_os_def)
  have q: "contents demo_os ''q'' = Some [98, 121]"
    by (simp add: demo_os_def)
  have x: "contents ?os ''x'' = Some (replicate 8192 1 @ [1])"
    by simp
  have y: "contents ?os ''y'' = Some (replicate 8192 1 @ [2])"
    by simp
  have z: "contents ?os ''z'' = Some (replicate 8192 1)"
    by simp
  show ?thesis
    using u_do_cmp_full_buffer [OF p p] u_do_cmp_full_buffer [OF p q]
      u_do_cmp_full_buffer [OF x y] u_do_cmp_full_buffer [OF x z]
    by simp
qed

section \<open>What \<open>cmp\<close> returns and raises\<close>

lemma cmp_cache_unchanged: "snd (cmp os cache filename_0 filename_1 shallow) = cache"
  by (simp add: cmp_def Let_def split: option.splits)


lemma cmp_not_regular_first:
  "stat os filename_0 = Some st_0 \<Longrightarrow> stat os filename_1 = Some st_1 \<Longrightarrow>
   S_IFMT (st_mode st_0) \<noteq> S_IFREG \<Longrightarrow>
   cmp os cache filename_0 filename_1 shallow = (Inr False, cache)"
  by (simp add: cmp_def Let_def u_metadata_def)

text \<open>
  \<^verbatim>\<open>cmp\<close> reads a stat result through its signature only: on two file systems whose
  stat results have the same signatures path by path, it does the same.
\<close>

lemma cmp_depends_on_signature:
  assumes sig: "\<And>p. map_option u_metadata (stat os' p) = map_option u_metadata (stat os p)"
    and "contents os' = contents os"
  shows "cmp os' cache filename_0 filename_1 shallow = cmp os cache filename_0 filename_1 shallow"
proof (cases "stat os filename_0")
  case None
  with sig [of filename_0] have "stat os' filename_0 = None"
    by simp
  with None show ?thesis
    by (simp add: cmp_def)
next
  case s0: (Some st_0)
  with sig [of filename_0] obtain st_0' where s0': "stat os' filename_0 = Some st_0'"
    and m0: "u_metadata st_0' = u_metadata st_0"
    by auto
  show ?thesis
  proof (cases "stat os filename_1")
    case None
    with sig [of filename_1] have "stat os' filename_1 = None"
      by simp
    with None s0 s0' show ?thesis
      by (simp add: cmp_def)
  next
    case s1: (Some st_1)
    with sig [of filename_1] obtain st_1' where s1': "stat os' filename_1 = Some st_1'"
      and m1: "u_metadata st_1' = u_metadata st_1"
      by auto
    show ?thesis
      by (simp add: cmp_def Let_def s0 s0' s1 s1' m0 m1)
  qed
qed

text \<open>
  Claim C8. When \<^verbatim>\<open>os.stat\<close> fails on either path, \<^verbatim>\<open>cmp\<close> raises the OSError to
  its caller: it returns no boolean, and it leaves the cache as it was.
\<close>

theorem cmp_stat_error:
  "stat os filename_0 = None \<or> stat os filename_1 = None \<Longrightarrow>
   cmp os cache filename_0 filename_1 shallow = (Inl OSError, cache)"
  by (auto simp: cmp_def split: option.splits)

theorem cmp_stat_error_witness:
  "(stat demo_os ''missing'' = None \<or> stat demo_os ''p'' = None) \<and>
   cmp demo_os [] ''missing'' ''p'' True = (Inl OSError, []) \<and>
   (stat demo_os ''p'' = None \<or> stat demo_os ''missing'' = None) \<and>
   cmp demo_os [] ''p'' ''missing'' False = (Inl OSError, [])"
proof -
  have h0: "stat demo_os ''missing'' = None \<or> stat demo_os ''p'' = None"
    by (simp add: demo_os_def)
  have h1: "stat demo_os ''p'' = None \<or> stat demo_os ''missing'' = None"
    by (simp add: demo_os_def)
  show ?thesis
    using h0 h1 cmp_stat_error [OF h0, of "[]" True] cmp_stat_error [OF h1, of "[]" False]
    by simp
qed

text \<open>
  Claim C1, at a regular file \<^verbatim>\<open>p\<close>: \<^verbatim>\<open>cmp(p, p, shallow)\<close> does not return
  \<^verbatim>\<open>True\<close>. The left operand of line 56 is false for a regular file, so the right
  operand is evaluated, and its name \<^verbatim>\<open>metadata_2\<close> is bound nowhere: the call raises
  NameError, for both values of \<open>shallow\<close>.
\<close>

theorem cmp_reflexive_raises:
  "cmp demo_os [] ''p'' ''p'' True = (Inl NameError, []) \<and>
   cmp demo_os [] ''p'' ''p'' False = (Inl NameError, [])"
  by (simp add: cmp_def demo_os_def mk_stat_def u_metadata_def S_IFMT_demo S_IFREG_def Let_def)

text \<open>
  Claim C6, at the regular file \<^verbatim>\<open>p\<close> and the directory \<^verbatim>\<open>d\<close>: \<^verbatim>\<open>cmp(p, d, shallow)\<close>
  does not return \<^verbatim>\<open>False\<close> but raises NameError, for both values of \<open>shallow\<close>; with
  the directory first, \<^verbatim>\<open>cmp(d, p, True)\<close> returns \<^verbatim>\<open>False\<close>.
\<close>

theorem cmp_regular_directory_raises:
  "cmp demo_os [] ''p'' ''d'' True = (Inl NameError, []) \<and>
   cmp demo_os [] ''p'' ''d'' False = (Inl NameError, []) \<and>
   cmp demo_os [] ''d'' ''p'' True = (Inr False, [])"
  by (simp add: cmp_def demo_os_def mk_stat_def u_metadata_def S_IFMT_demo S_IFREG_def Let_def)

text \<open>
  Claim C7, at the regular files \<^verbatim>\<open>p\<close> and \<^verbatim>\<open>q\<close>, which have the same signature and
  different contents: \<^verbatim>\<open>cmp(p, q, True)\<close> does not return \<^verbatim>\<open>True\<close> but raises
  NameError.
\<close>

theorem cmp_shallow_raises:
  "u_metadata (the (stat demo_os ''p'')) = u_metadata (the (stat demo_os ''q'')) \<and>
   contents demo_os ''p'' \<noteq> contents demo_os ''q'' \<and>
   cmp demo_os [] ''p'' ''q'' True = (Inl NameError, [])"
  by (simp add: cmp_def demo_os_def mk_stat_def u_metadata_def S_IFMT_demo S_IFREG_def Let_def)

section \<open>Lines 62 to 68, and the cache over a sequence of calls\<close>

text \<open>
  Lines 62 to 68 taken by themselves, as a function of the cache they find: a run keeps
  one entry for each key, it leaves at most 101 entries where it found at most 101, and
  on a miss with more than 100 entries it leaves no key but its own.
\<close>

lemma dict_setitem_fresh: "map_of al k = None \<Longrightarrow> dict_setitem k v al = al @ [(k, v)]"
  by (induction al) (auto split: if_splits)

lemma length_dict_setitem: "length (dict_setitem k v al) \<le> Suc (length al)"
  by (induction al) auto

lemma map_of_dict_setitem: "map_of (dict_setitem k v al) = (map_of al)(k \<mapsto> v)"
  by (induction al) (auto simp: fun_eq_iff)

lemma keys_dict_setitem: "fst ` set (dict_setitem k v al) = insert k (fst ` set al)"
  by (induction al) auto

lemma distinct_dict_setitem:
  "distinct (map fst al) \<Longrightarrow> distinct (map fst (dict_setitem k v al))"
proof (induction al)
  case Nil
  show ?case by simp
next
  case (Cons p al)
  then show ?case
    using keys_dict_setitem [of k v al] by (cases "fst p = k") auto
qed

lemma cmp_cached_length:
  assumes "length cache \<le> 101"
  shows "length (snd (cmp_cached os cache filename_0 filename_1)) \<le> 101"
proof (cases "map_of cache (filename_0, filename_1)")
  case (Some outcome)
  with assms show ?thesis
    by (simp add: cmp_cached_def)
next
  case None
  define cache1 where "cache1 = (if length cache > 100 then clear_cache cache else cache)"
  have small: "length cache1 \<le> 100"
    using assms by (simp add: cache1_def clear_cache_def)
  have result: "snd (cmp_cached os cache filename_0 filename_1) =
      (case u_do_cmp os filename_0 filename_1 of
         Inl e \<Rightarrow> cache1
       | Inr outcome \<Rightarrow> dict_setitem (filename_0, filename_1) outcome cache1)"
    using None by (simp add: cmp_cached_def cache1_def split: sum.splits)
  show ?thesis
  proof (cases "u_do_cmp os filename_0 filename_1")
    case (Inl e)
    with result small show ?thesis
      by simp
  next
    case (Inr outcome)
    with result small length_dict_setitem [of "(filename_0, filename_1)" outcome cache1]
    show ?thesis
      by simp
  qed
qed

lemma cmp_cached_distinct:
  "distinct (map fst cache) \<Longrightarrow> distinct (map fst (snd (cmp_cached os cache filename_0 filename_1)))"
  by (simp add: cmp_cached_def Let_def clear_cache_def distinct_dict_setitem
      split: option.splits sum.splits)

lemma cmp_cached_clears:
  "100 < length cache \<Longrightarrow> map_of cache (filename_0, filename_1) = None \<Longrightarrow>
   fst ` set (snd (cmp_cached os cache filename_0 filename_1)) \<subseteq> {(filename_0, filename_1)}"
  by (simp add: cmp_cached_def Let_def clear_cache_def split: sum.splits)

text \<open>
  No call of \<^verbatim>\<open>cmp\<close> gets to line 62: whatever the calls are, the cache after them
  is the cache before them.
\<close>

lemma cmp_calls_cache: "snd (cmp_calls calls cache) = cache"
proof (induction calls arbitrary: cache)
  case Nil
  show ?case
    by simp
next
  case (Cons c calls)
  obtain os f0 f1 shallow where c: "c = (os, f0, f1, shallow)"
    by (cases c) auto
  obtain outcome where first: "cmp os cache f0 f1 shallow = (outcome, cache)"
    using cmp_cache_unchanged [of os cache f0 f1 shallow] by (metis prod.collapse)
  obtain outcomes where rest: "cmp_calls calls cache = (outcomes, cache)"
    using Cons.IH [of cache] by (metis prod.collapse)
  show ?case
    by (simp add: c first rest)
qed




section \<open>The batch comparator never yields\<close>

lemma cmpfiles_raises:
  "fst (fst (cmpfiles os cache a b (x # common) shallow)) = [] \<and>
   snd (fst (cmpfiles os cache a b (x # common) shallow)) \<noteq> None"
  by (simp add: tuple_setitem_def Let_def split: prod.splits sum.splits)

text \<open>
  Claim C5, at the directories \<^verbatim>\<open>a\<close> and \<^verbatim>\<open>b\<close> and the common names \<^verbatim>\<open>x\<close>, which
  exists on neither side, and \<^verbatim>\<open>y\<close>: \<^verbatim>\<open>_cmp\<close> maps the OSError for \<^verbatim>\<open>x\<close> to the
  index 2, but the store into the tuple \<^verbatim>\<open>result\<close> raises TypeError, so \<^verbatim>\<open>cmpfiles\<close>
  yields nothing, neither for \<^verbatim>\<open>x\<close> nor for \<^verbatim>\<open>y\<close>, and the error reaches the caller.
  For \<^verbatim>\<open>y\<close> alone the NameError of \<^verbatim>\<open>cmp\<close> passes through \<^verbatim>\<open>_cmp\<close>.
\<close>

theorem cmpfiles_raises_TypeError:
  "u_cmp demo_os [] ''a/x'' ''b/x'' True = (Inr 2, []) \<and>
   cmpfiles demo_os [] ''a'' ''b'' [''x'', ''y''] True = (([], Some TypeError), []) \<and>
   cmpfiles demo_os [] ''a'' ''b'' [''y''] False = (([], Some NameError), [])"
  by (simp add: u_cmp_def cmp_def tuple_setitem_def demo_os_def posix_join_def mk_stat_def
      u_metadata_def S_IFMT_def S_IFREG_def Let_def)

section \<open>The directory partitioner\<close>

lemma py_in_str_tuple: "py_in (PTuple ys) (PTuple [PStr x0, PStr x1]) = False"
  by (simp add: py_in_def)

lemma common_names_positional:
  "common_names os l r = map (normcase os) (take (length r) l)"
proof -
  have "map (\<lambda>(a, b). fst a) (zip (zip (map f l) l) (zip (map f r) r)) = map f (take (length r) l)"
    for f :: "string \<Rightarrow> string"
  proof (induction l arbitrary: r)
    case Nil
    show ?case by simp
  next
    case (Cons x l)
    show ?case by (cases r) (simp_all add: Cons.IH)
  qed
  then show ?thesis
    by (simp add: common_names_def py_in_str_tuple)
qed

lemma nt_normcase_Ab: "nt_normcase ''Ab'' = ''ab''"
  by code_simp

text \<open>
  Claim C9, at three pairs of listings: \<^verbatim>\<open>common_names\<close> yields \<^verbatim>\<open>a\<close> for the listings
  \<^verbatim>\<open>[a]\<close> and \<^verbatim>\<open>[b]\<close>, which have no name in common; it yields \<^verbatim>\<open>a\<close> and not the
  common name \<^verbatim>\<open>b\<close> for \<^verbatim>\<open>[a, b]\<close> and \<^verbatim>\<open>[b]\<close>; and under a case-folding
  \<^verbatim>\<open>normcase\<close> it yields for \<^verbatim>\<open>[Ab]\<close> and \<^verbatim>\<open>[AB]\<close> the folded \<^verbatim>\<open>ab\<close>, which is the
  original form of neither side.
\<close>

theorem common_names_not_common:
  "common_names demo_os [''a''] [''b''] = [''a''] \<and>
   common_names demo_os [''a'', ''b''] [''b''] = [''a''] \<and>
   common_names (demo_os\<lparr>normcase := nt_normcase\<rparr>) [''Ab''] [''AB''] = [''ab'']"
  by (simp add: common_names_def py_in_def demo_os_def nt_normcase_Ab)

lemma S_ISREG_not_S_ISDIR: "S_ISREG t \<Longrightarrow> \<not> S_ISDIR t"
  by (simp add: S_ISREG_def S_ISDIR_def S_IFREG_def S_IFDIR_def)

lemma common_funny_loop_all:
  "common_funny_loop os left right names = (ys, None) \<Longrightarrow> ys = names"
proof (induction names arbitrary: ys)
  case Nil
  then show ?case by simp
next
  case (Cons name names)
  then show ?case
    by (auto simp: Let_def S_ISREG_not_S_ISDIR split: sum.splits prod.splits if_splits)
qed

lemma common_files_loop_subset:
  "common_files_loop os left names = (ys, e) \<Longrightarrow> set ys \<subseteq> set names"
proof (induction names arbitrary: ys e)
  case Nil
  then show ?case by simp
next
  case (Cons name names)
  then show ?case
    by (fastforce split: sum.splits prod.splits if_splits)
qed

lemma common_files_also_funny:
  "common_files os left right = (fs, e) \<Longrightarrow> common_funny os left right = (ys, None) \<Longrightarrow>
   set fs \<subseteq> set ys"
  unfolding common_files_def common_funny_def
  using common_files_loop_subset common_funny_loop_all by blast

lemma filter_only_loop_nothing: "fst (filter_only_loop a b xs) = []"
  by (induction xs) (simp_all add: getitem_def)

lemma left_only_nothing: "fst (left_only left right) = []"
  by (simp add: left_only_def u_filter_only_def filter_only_loop_nothing)

lemma right_only_nothing: "fst (right_only right left) = []"
  by (simp add: right_only_def u_filter_only_def filter_only_loop_nothing)

text \<open>
  Claim C4, at the directories \<^verbatim>\<open>a\<close> and \<^verbatim>\<open>b\<close>, which both hold the regular file
  \<^verbatim>\<open>a\<close>: the name is yielded by \<^verbatim>\<open>common_files\<close> and by \<^verbatim>\<open>common_funny\<close>, so it is
  in two of the three common sets. Called with the two listings \<^verbatim>\<open>[a]\<close> instead of the
  two paths, each of the three functions raises TypeError and the name is in none.
\<close>

theorem common_sets_overlap:
  "common_dirs demo_os (Path ''a'') (Path ''b'') = ([], None) \<and>
   common_files demo_os (Path ''a'') (Path ''b'') = ([''a''], None) \<and>
   common_funny demo_os (Path ''a'') (Path ''b'') = ([''a''], None) \<and>
   common_dirs demo_os (Listing [''a'']) (Listing [''a'']) = ([], Some TypeError) \<and>
   common_files demo_os (Listing [''a'']) (Listing [''a'']) = ([], Some TypeError) \<and>
   common_funny demo_os (Listing [''a'']) (Listing [''a'']) = ([], Some TypeError)"
  by (simp add: common_dirs_def common_files_def common_funny_def common_names_def py_in_def
      py_iter_def py_stat_def py_join_def demo_os_def posix_join_def mk_stat_def
      S_IFMT_def S_ISDIR_def S_ISREG_def S_IFREG_def S_IFDIR_def Let_def)

end
